theory Spec2Isabelle
  imports Complex_Main "HOL-Library.Char_ord" "HOL-Library.List_Lexorder"
begin

section \<open>Market sentiment analyzer: a shallow embedding\<close>

text \<open>
  The repository resolves a company name to a ticker, fetches recent news, and asks a
  language model for a structured sentiment. This theory embeds the pure logic of
  \<^verbatim>\<open>sentiment_schema.py\<close>, \<^verbatim>\<open>ticker_resolver.py\<close>, \<^verbatim>\<open>news_fetcher.py\<close> and
  \<^verbatim>\<open>sentiment_chain.py\<close>. Calls that leave the process (the search endpoint, the news
  provider, the language model, the clock) and standard-library calls that parse text
  or do calendar arithmetic are parameters of the embedded functions; every theorem
  holds for whatever those calls return.
\<close>

subsection \<open>Python values\<close>

text \<open>
  A Python float is an IEEE 754 double: a finite number, an infinity or NaN. A finite
  double is represented by the real number it denotes (the two zeros are one value).
  Every comparison with NaN is false.
\<close>

datatype pyfloat = Finite real | PosInf | NegInf | NaN

fun py_lt :: "pyfloat \<Rightarrow> pyfloat \<Rightarrow> bool" where
  "py_lt NaN _ = False"
| "py_lt _ NaN = False"
| "py_lt (Finite a) (Finite b) = (a < b)"
| "py_lt (Finite _) PosInf = True"
| "py_lt (Finite _) NegInf = False"
| "py_lt PosInf _ = False"
| "py_lt NegInf NegInf = False"
| "py_lt NegInf _ = True"

text \<open>
  Python's \<^verbatim>\<open>min(a, b)\<close> keeps \<open>a\<close> unless \<open>b < a\<close>, and \<^verbatim>\<open>max(a, b)\<close> keeps \<open>a\<close>
  unless \<open>b > a\<close>.
\<close>

definition py_min :: "pyfloat \<Rightarrow> pyfloat \<Rightarrow> pyfloat" where
  "py_min a b = (if py_lt b a then b else a)"

definition py_max :: "pyfloat \<Rightarrow> pyfloat \<Rightarrow> pyfloat" where
  "py_max a b = (if py_lt a b then b else a)"

text \<open>
  The sum of two finite doubles is their exact sum rounded to a double. The rounding
  (to nearest, ties to even, to an infinity on overflow) is a parameter \<open>rnd\<close> of the
  functions that add; sums with an infinity or NaN follow IEEE 754.
\<close>

type_synonym rounding = "real \<Rightarrow> pyfloat"

fun py_add :: "rounding \<Rightarrow> pyfloat \<Rightarrow> pyfloat \<Rightarrow> pyfloat" where
  "py_add rnd (Finite a) (Finite b) = rnd (a + b)"
| "py_add rnd NaN _ = NaN"
| "py_add rnd _ NaN = NaN"
| "py_add rnd PosInf NegInf = NaN"
| "py_add rnd NegInf PosInf = NaN"
| "py_add rnd PosInf _ = PosInf"
| "py_add rnd NegInf _ = NegInf"
| "py_add rnd _ PosInf = PosInf"
| "py_add rnd _ NegInf = NegInf"

text \<open>
  A value of type \<^verbatim>\<open>Any\<close>, classified by whether it converts to a float:
  \<open>Numeric x\<close> is a number or numeric text that \<^verbatim>\<open>float(v)\<close> and pydantic's float
  validation both turn into \<open>x\<close>; \<open>NonNumeric\<close> is a value that both reject, such as
  \<^verbatim>\<open>None\<close>, a list or the text \<^verbatim>\<open>high\<close>. A value on which the two disagree is
  not represented.
\<close>

datatype anyval = Numeric pyfloat | NonNumeric


text \<open>
  Exceptions are values. \<open>RequestException\<close> and \<open>ProviderError\<close> stand for failures of the
  search endpoint and of the news provider, \<open>OverflowError\<close> for date arithmetic that
  leaves the range of \<^verbatim>\<open>datetime\<close>, \<open>ValueError\<close> for \<^verbatim>\<open>max\<close> of an empty sequence,
  \<open>ValidationError\<close> for a value that pydantic's schema validation rejects, and
  \<open>LLMError\<close> for a failed model invocation.
\<close>

datatype error =
  RequestException | ProviderError | OverflowError | ValueError | ValidationError | LLMError

subsection \<open>Python strings\<close>

text \<open>
  A Python \<^verbatim>\<open>str\<close> is a sequence of code points. A \<open>char\<close> here stands for the code
  point of the same number, so the model covers text whose code points are below 256.
  \<^verbatim>\<open>str.isspace\<close> holds on that range for the code points 9 to 13, 28 to 32, 133 and 160.
\<close>

definition isspace :: "char \<Rightarrow> bool" where
  "isspace c = (c \<in> set [CHR 0x09, CHR 0x0A, CHR 0x0B, CHR 0x0C, CHR 0x0D,
                           CHR 0x1C, CHR 0x1D, CHR 0x1E, CHR 0x1F, CHR 0x20,
                           CHR 0x85, CHR 0xA0])"

text \<open>\<^verbatim>\<open>s.strip()\<close> removes leading and trailing whitespace.\<close>

definition py_strip :: "string \<Rightarrow> string" where
  "py_strip s = rev (dropWhile isspace (rev (dropWhile isspace s)))"

text \<open>
  \<^verbatim>\<open>s.split()\<close> cuts at runs of whitespace and returns the non-empty pieces;
  \<open>split_from cur s\<close> carries the piece being read, reversed.
\<close>

fun split_from :: "string \<Rightarrow> string \<Rightarrow> string list" where
  "split_from cur [] = (if cur = [] then [] else [rev cur])"
| "split_from cur (c # cs) =
     (if isspace c
      then (if cur = [] then split_from [] cs else rev cur # split_from [] cs)
      else split_from (c # cur) cs)"

definition py_split :: "string \<Rightarrow> string list" where
  "py_split s = split_from [] s"

text \<open>
  \<^verbatim>\<open>s.lower()\<close> and \<^verbatim>\<open>s.upper()\<close> on the ASCII letters. Below 256 Python maps no
  other character to an ASCII letter, and the callers only test the result against
  ASCII letters and digits, so other characters are left as they are.
\<close>

definition lower_char :: "char \<Rightarrow> char" where
  "lower_char c =
     (case map_of (zip ''ABCDEFGHIJKLMNOPQRSTUVWXYZ'' ''abcdefghijklmnopqrstuvwxyz'') c of
        Some d \<Rightarrow> d | None \<Rightarrow> c)"

definition upper_char :: "char \<Rightarrow> char" where
  "upper_char c =
     (case map_of (zip ''abcdefghijklmnopqrstuvwxyz'' ''ABCDEFGHIJKLMNOPQRSTUVWXYZ'') c of
        Some d \<Rightarrow> d | None \<Rightarrow> c)"

definition is_lower_alnum :: "char \<Rightarrow> bool" where
  "is_lower_alnum c = (c \<in> set ''abcdefghijklmnopqrstuvwxyz0123456789'')"

text \<open>
  \<^verbatim>\<open>re.sub(r"[^a-z0-9]+", " ", s)\<close>: every maximal run of characters outside
  \<^verbatim>\<open>a-z0-9\<close> becomes one space. The flag says whether the previous character was
  part of such a run.
\<close>

fun sub_non_alnum :: "bool \<Rightarrow> string \<Rightarrow> string" where
  "sub_non_alnum in_run [] = []"
| "sub_non_alnum in_run (c # cs) =
     (if is_lower_alnum c then c # sub_non_alnum False cs
      else if in_run then sub_non_alnum True cs
      else CHR '' '' # sub_non_alnum True cs)"

text \<open>\<^verbatim>\<open>t in s\<close> on strings: \<open>t\<close> occurs in \<open>s\<close> as a contiguous piece.\<close>

fun starts_with :: "string \<Rightarrow> string \<Rightarrow> bool" where
  "starts_with [] s = True"
| "starts_with (x # xs) [] = False"
| "starts_with (x # xs) (y # ys) = (x = y \<and> starts_with xs ys)"

fun contains :: "string \<Rightarrow> string \<Rightarrow> bool" where
  "contains t [] = (t = [])"
| "contains t (c # cs) = (starts_with t (c # cs) \<or> contains t cs)"

subsection \<open>The result schema (sentiment\_schema.py)\<close>

datatype Sentiment = Positive | Negative | Neutral

record SentimentResult =
  company_name :: string
  stock_code :: string
  newsdesc :: string
  sentiment :: Sentiment
  people_names :: "string list"
  places_names :: "string list"
  other_companies_referred :: "string list"
  related_industries :: "string list"
  market_implications :: string
  confidence_score :: pyfloat

text \<open>
  \<^verbatim>\<open>_clamp_confidence\<close>: \<^verbatim>\<open>try: return max(0.0, min(1.0, float(v)))\<close>,
  \<^verbatim>\<open>except Exception: return 0.5\<close>.
\<close>

definition clamp_confidence :: "anyval \<Rightarrow> pyfloat" where
  "clamp_confidence v =
     (case v of
        Numeric x \<Rightarrow> py_max (Finite 0) (py_min (Finite 1) x)
      | NonNumeric \<Rightarrow> Finite (1 / 2))"

text \<open>
  The field is declared \<^verbatim>\<open>confidence_score: float\<close> and the validator is registered
  by \<^verbatim>\<open>@field_validator("confidence_score")\<close> without a mode, which in pydantic is
  the mode \<^verbatim>\<open>after\<close>: pydantic first validates the value as a float and raises a
  validation error when it is not one, and only then calls the validator on the float.
\<close>

definition pydantic_float :: "anyval \<Rightarrow> error + pyfloat" where
  "pydantic_float v = (case v of Numeric x \<Rightarrow> Inr x | NonNumeric \<Rightarrow> Inl ValidationError)"

text \<open>
  Constructing a \<^verbatim>\<open>SentimentResult\<close>: the confidence passes the float validation and
  then the field validator; the other fields are stored as given.
\<close>

definition new_SentimentResult ::
  "string \<Rightarrow> string \<Rightarrow> string \<Rightarrow> Sentiment \<Rightarrow> string list \<Rightarrow> string list \<Rightarrow>
   string list \<Rightarrow> string list \<Rightarrow> string \<Rightarrow> anyval \<Rightarrow> error + SentimentResult" where
  "new_SentimentResult cn sc nd s pn pl oc ri mi conf =
     (case pydantic_float conf of
        Inl e \<Rightarrow> Inl e
      | Inr x \<Rightarrow>
          Inr \<lparr> company_name = cn, stock_code = sc, newsdesc = nd, sentiment = s,
                people_names = pn, places_names = pl, other_companies_referred = oc,
                related_industries = ri, market_implications = mi,
                confidence_score = clamp_confidence (Numeric x) \<rparr>)"


subsection \<open>Ticker resolution (ticker\_resolver.py)\<close>

record TickerCandidate =
  symbol :: string
  shortname :: string
  longname :: "string option"
  exchange :: "string option"
  score :: pyfloat
  typeDisp :: "string option"
  exchDisp :: "string option"

text \<open>
  \<^verbatim>\<open>_norm(s) = re.sub(r"[^a-z0-9]+", " ", (s or "").lower()).strip()\<close>.
\<close>

definition norm_name :: "string \<Rightarrow> string" where
  "norm_name s = py_strip (sub_non_alnum False (map lower_char s))"

text \<open>
  The curated table, keyed by normalized company name, as the dictionary literal builds
  it. No two keys coincide (\<open>CURATED_distinct\<close> below), so the order of the entries does
  not matter for a lookup.
\<close>

definition CURATED :: "(string \<times> string \<times> string \<times> string) list" where
  "CURATED =
     [(norm_name ''Apple Inc'', ''AAPL'', ''Apple Inc.'', ''NASDAQ''),
      (norm_name ''Alphabet Inc'', ''GOOGL'', ''Alphabet Inc.'', ''NASDAQ''),
      (norm_name ''Microsoft Corporation'', ''MSFT'', ''Microsoft Corporation'', ''NASDAQ''),
      (norm_name ''Amazon.com, Inc.'', ''AMZN'', ''Amazon.com, Inc.'', ''NASDAQ''),
      (norm_name ''Tesla, Inc.'', ''TSLA'', ''Tesla, Inc.'', ''NASDAQ''),
      (norm_name ''Meta Platforms, Inc.'', ''META'', ''Meta Platforms, Inc.'', ''NASDAQ''),
      (norm_name ''NVIDIA Corporation'', ''NVDA'', ''NVIDIA Corporation'', ''NASDAQ''),
      (norm_name ''Reliance Industries'', ''RELIANCE.NS'', ''Reliance Industries Limited'', ''NSE''),
      (norm_name ''Tata Consultancy Services'', ''TCS.NS'', ''Tata Consultancy Services Limited'', ''NSE''),
      (norm_name ''Infosys'', ''INFY.NS'', ''Infosys Limited'', ''NSE''),
      (norm_name ''HDFC Bank'', ''HDFCBANK.NS'', ''HDFC Bank Limited'', ''NSE''),
      (norm_name ''ICICI Bank'', ''ICICIBANK.NS'', ''ICICI Bank Limited'', ''NSE'')]"

text \<open>\<^verbatim>\<open>str(v)\<close> of an optional string: \<^verbatim>\<open>str(None)\<close> is the text \<^verbatim>\<open>None\<close>.\<close>

definition py_str :: "string option \<Rightarrow> string" where
  "py_str v = (case v of None \<Rightarrow> ''None'' | Some s \<Rightarrow> s)"

text \<open>
  The two tests of \<^verbatim>\<open>_boost_score\<close>:
  \<^verbatim>\<open>str(c.typeDisp).upper() in {"EQUITY", "COMMON STOCK", "ETF"}\<close> and the name that
  the tokens are looked up in, \<^verbatim>\<open>_norm(f"{c.shortname} {c.longname or ''}")\<close>.
\<close>

definition is_equity_type :: "TickerCandidate \<Rightarrow> bool" where
  "is_equity_type c =
     (map upper_char (py_str (typeDisp c)) \<in> set [''EQUITY'', ''COMMON STOCK'', ''ETF''])"

definition combined_name :: "TickerCandidate \<Rightarrow> string" where
  "combined_name c =
     norm_name (shortname c @ '' '' @ (case longname c of None \<Rightarrow> [] | Some l \<Rightarrow> l))"

text \<open>
  \<^verbatim>\<open>_boost_score\<close>. The score starts at \<^verbatim>\<open>c.score or 0.0\<close> (a zero score is
  falsy and replaced by 0.0, NaN is truthy), gains 1.5 for a preferred instrument type
  and 1.0 when \<^verbatim>\<open>all(tok in combined for tok in target_norm.split())\<close>. Both
  \<^verbatim>\<open>+=\<close> are additions of doubles, rounded by \<open>rnd\<close>.
\<close>

definition boost_score :: "rounding \<Rightarrow> TickerCandidate \<Rightarrow> string \<Rightarrow> bool \<Rightarrow> pyfloat" where
  "boost_score rnd c target_norm prefer_equity =
     (let score0 = (if score c = Finite 0 then Finite 0 else score c);
          score1 = (if prefer_equity \<and> is_equity_type c
                    then py_add rnd score0 (Finite (3 / 2)) else score0)
      in if list_all (\<lambda>tok. contains tok (combined_name c)) (py_split target_norm)
         then py_add rnd score1 (Finite 1) else score1)"

text \<open>
  \<^verbatim>\<open>max(xs, key=f)\<close> raises \<^verbatim>\<open>ValueError\<close> on an empty sequence; otherwise it walks the
  sequence and replaces the best element so far only by one whose key compares strictly
  greater, so the first of several maximal elements is returned, and an element whose
  key is NaN is never replaced and never replaces another.
\<close>

fun py_max_key :: "('a \<Rightarrow> pyfloat) \<Rightarrow> 'a list \<Rightarrow> error + 'a" where
  "py_max_key f [] = Inl ValueError"
| "py_max_key f (x # xs) = Inr (foldl (\<lambda>best y. if py_lt (f best) (f y) then y else best) x xs)"

text \<open>
  \<^verbatim>\<open>resolve_ticker\<close>. The search endpoint is the parameter \<open>yahoo_suggest\<close>: given the
  query, the count and the region it returns candidates or, after its retries, raises.
  The second component of the result lists the search calls that were made; \<open>rnd\<close> is
  the rounding of the float additions.
\<close>

type_synonym search_call = "string \<times> nat \<times> string"

definition resolve_ticker ::
  "rounding \<Rightarrow> (string \<Rightarrow> nat \<Rightarrow> string \<Rightarrow> error + TickerCandidate list) \<Rightarrow> string \<Rightarrow> string
     \<Rightarrow> bool \<Rightarrow> (error + TickerCandidate option) \<times> search_call list" where
  "resolve_ticker rnd yahoo_suggest company region prefer_equity =
     (let key = norm_name company in
      case map_of CURATED key of
        Some (sy, nm, exch) \<Rightarrow>
          (Inr (Some \<lparr> symbol = sy, shortname = nm, longname = Some nm,
                      exchange = Some exch, score = Finite 1, typeDisp = Some ''EQUITY'',
                      exchDisp = Some exch \<rparr>), [])
      | None \<Rightarrow>
          (case yahoo_suggest company 8 region of
             Inl e \<Rightarrow> (Inl e, [(company, 8, region)])
           | Inr candidates \<Rightarrow>
               (if candidates = [] then (Inr None, [(company, 8, region)])
                else
                  let target = norm_name company in
                  (case py_max_key (\<lambda>c. boost_score rnd c target prefer_equity) candidates of
                     Inl e \<Rightarrow> (Inl e, [(company, 8, region)])
                   | Inr best \<Rightarrow> (Inr (Some best), [(company, 8, region)])))))"

subsection \<open>Timestamps\<close>

text \<open>
  Every \<^verbatim>\<open>datetime\<close> the fetcher handles is timezone-aware and in UTC (the parsers
  pass \<^verbatim>\<open>tz=timezone.utc\<close> or call \<^verbatim>\<open>astimezone(timezone.utc)\<close>), so a value is its
  seven calendar fields.
\<close>

record datetime =
  year :: nat
  month :: nat
  day :: nat
  hour :: nat
  minute :: nat
  second :: nat
  microsecond :: nat


text \<open>
  \<^verbatim>\<open>a < b\<close> on two datetimes of the same time zone compares the field tuples
  \<^verbatim>\<open>(year, month, day, hour, minute, second, microsecond)\<close>; for UTC values this is
  the chronological order. \<^verbatim>\<open>a >= b\<close> is its negation.
\<close>

definition dt_less :: "datetime \<Rightarrow> datetime \<Rightarrow> bool" where
  "dt_less a b =
     (year a < year b \<or> (year a = year b \<and>
     (month a < month b \<or> (month a = month b \<and>
     (day a < day b \<or> (day a = day b \<and>
     (hour a < hour b \<or> (hour a = hour b \<and>
     (minute a < minute b \<or> (minute a = minute b \<and>
     (second a < second b \<or> (second a = second b \<and>
      microsecond a < microsecond b))))))))))))"

definition dt_ge :: "datetime \<Rightarrow> datetime \<Rightarrow> bool" where
  "dt_ge a b = (\<not> dt_less a b)"

text \<open>
  Decimal formatting: \<open>dec_digits n\<close> is \<^verbatim>\<open>str(n)\<close> and \<open>pad_zero w n\<close> is
  \<^verbatim>\<open>"%0wd" % n\<close>, which pads with zeros to at least \<open>w\<close> characters.
\<close>

definition digit_char :: "nat \<Rightarrow> char" where
  "digit_char n = char_of (48 + n)"

fun dec_digits :: "nat \<Rightarrow> string" where
  "dec_digits n = (if n < 10 then [digit_char n] else dec_digits (n div 10) @ [digit_char (n mod 10)])"

declare dec_digits.simps [simp del]

definition pad_zero :: "nat \<Rightarrow> nat \<Rightarrow> string" where
  "pad_zero w n = replicate (w - length (dec_digits n)) (CHR ''0'') @ dec_digits n"

text \<open>
  \<^verbatim>\<open>datetime.isoformat()\<close> of a UTC value: \<^verbatim>\<open>YYYY-MM-DDTHH:MM:SS+00:00\<close>, with
  \<^verbatim>\<open>.ffffff\<close> after the seconds when the microsecond field is not zero.
\<close>

definition isoformat :: "datetime \<Rightarrow> string" where
  "isoformat d =
     pad_zero 4 (year d) @ ''-'' @ pad_zero 2 (month d) @ ''-'' @ pad_zero 2 (day d) @ ''T'' @
     pad_zero 2 (hour d) @ '':'' @ pad_zero 2 (minute d) @ '':'' @ pad_zero 2 (second d) @
     (if microsecond d = 0 then [] else ''.'' @ pad_zero 6 (microsecond d)) @ ''+00:00''"

text \<open>
  \<^verbatim>\<open>_to_iso(dt) = dt.astimezone(timezone.utc).isoformat() if dt else None\<close>; the
  conversion to UTC leaves a UTC value as it is.
\<close>

definition to_iso :: "datetime option \<Rightarrow> string option" where
  "to_iso dt = (case dt of None \<Rightarrow> None | Some d \<Rightarrow> Some (isoformat d))"

text \<open>
  \<^verbatim>\<open>xs.sort(key=f, reverse=True)\<close> reverses the list, sorts it stably in ascending key
  order and reverses it again: descending keys, equal keys in their original order.
\<close>

definition sort_desc :: "('a \<Rightarrow> string) \<Rightarrow> 'a list \<Rightarrow> 'a list" where
  "sort_desc f xs = rev (sort_key f (rev xs))"

subsection \<open>News fetching (news\_fetcher.py)\<close>

record NewsItem =
  title :: string
  link :: string
  publisher :: "string option"
  published_at :: string
  related_tickers :: "string list"

text \<open>
  A raw news record is a dictionary. Its keys are the fields below; a missing key and
  a key holding \<^verbatim>\<open>None\<close> both read as \<open>None\<close>, as \<^verbatim>\<open>dict.get\<close> returns. The nested
  dictionaries \<^verbatim>\<open>content\<close>, \<^verbatim>\<open>canonicalUrl\<close>, \<^verbatim>\<open>clickThroughUrl\<close> and
  \<^verbatim>\<open>provider\<close> are records of their own. An epoch field holds an \<^verbatim>\<open>int\<close>, a
  \<^verbatim>\<open>float\<close> or a \<^verbatim>\<open>str\<close>.
\<close>

datatype epochval = EpochInt int | EpochFloat pyfloat | EpochStr string

record url_object =
  url :: "string option"

record provider_object =
  displayName :: "string option"

record news_content =
  content_title :: "string option"
  pubDate :: "string option"
  canonicalUrl :: "url_object option"
  clickThroughUrl :: "url_object option"
  provider :: "provider_object option"

record raw_news =
  raw_title :: "string option"
  raw_link :: "string option"
  raw_publisher :: "string option"
  providerPublishTime :: "epochval option"
  timePublished :: "epochval option"
  relatedTickers :: "string list option"
  content :: "news_content option"

text \<open>
  The standard-library calls of the fetcher whose results depend on number parsing, on
  the calendar or on the local time zone are parameters; \<open>None\<close> stands for a raised
  exception:
  \<^item> \<open>int_float v\<close> is \<^verbatim>\<open>int(float(v))\<close>;
  \<^item> \<open>fromtimestamp secs\<close> is \<^verbatim>\<open>datetime.fromtimestamp(secs, tz=timezone.utc)\<close>;
  \<^item> \<open>fromisoformat s\<close> is \<^verbatim>\<open>datetime.fromisoformat(s).astimezone(timezone.utc)\<close>;
  \<^item> \<open>minus_days d n\<close> is \<^verbatim>\<open>d - timedelta(days=n)\<close>.
\<close>

record pylib =
  int_float :: "epochval \<Rightarrow> int option"
  fromtimestamp :: "int \<Rightarrow> datetime option"
  fromisoformat :: "string \<Rightarrow> datetime option"
  minus_days :: "datetime \<Rightarrow> int \<Rightarrow> datetime option"

text \<open>Truthiness of an optional string, and \<^verbatim>\<open>v or ""\<close>.\<close>

definition py_truthy :: "string option \<Rightarrow> bool" where
  "py_truthy v = (case v of None \<Rightarrow> False | Some s \<Rightarrow> s \<noteq> [])"

definition str_value :: "string option \<Rightarrow> string" where
  "str_value v = (case v of None \<Rightarrow> [] | Some s \<Rightarrow> s)"

text \<open>\<^verbatim>\<open>_parse_epoch_to_dt\<close>: \<open>None\<close> for \<^verbatim>\<open>None\<close> and whenever a conversion raises.\<close>

definition parse_epoch_to_dt :: "pylib \<Rightarrow> epochval option \<Rightarrow> datetime option" where
  "parse_epoch_to_dt lib v =
     (case v of
        None \<Rightarrow> None
      | Some x \<Rightarrow>
          (case int_float lib x of
             None \<Rightarrow> None
           | Some secs \<Rightarrow> fromtimestamp lib secs))"

text \<open>
  \<^verbatim>\<open>_parse_iso_to_dt\<close>: \<open>None\<close> for \<^verbatim>\<open>None\<close> and for the empty string; a value that
  ends in \<^verbatim>\<open>Z\<close> has every \<^verbatim>\<open>Z\<close> replaced by \<^verbatim>\<open>+00:00\<close> before it is parsed.
\<close>

definition replace_Z :: "string \<Rightarrow> string" where
  "replace_Z s = concat (map (\<lambda>c. if c = CHR ''Z'' then ''+00:00'' else [c]) s)"

definition parse_iso_to_dt :: "pylib \<Rightarrow> string option \<Rightarrow> datetime option" where
  "parse_iso_to_dt lib v =
     (if \<not> py_truthy v then None
      else let s = str_value v;
               s' = (if last s = CHR ''Z'' then replace_Z s else s)
           in fromisoformat lib s')"

text \<open>\<^verbatim>\<open>n.get("content") or {}\<close> followed by \<^verbatim>\<open>.get(key)\<close>.\<close>

definition content_get :: "raw_news \<Rightarrow> (news_content \<Rightarrow> 'a option) \<Rightarrow> 'a option" where
  "content_get n field = (case content n of None \<Rightarrow> None | Some c \<Rightarrow> field c)"

text \<open>
  \<^verbatim>\<open>_extract_published_dt\<close>: the provider's epoch field, then the nested ISO string,
  then the secondary epoch field; a datetime is always truthy, so \<^verbatim>\<open>if dt\<close> tests for
  \<^verbatim>\<open>None\<close>.
\<close>

definition extract_published_dt :: "pylib \<Rightarrow> raw_news \<Rightarrow> datetime option" where
  "extract_published_dt lib n =
     (let dt = parse_epoch_to_dt lib (providerPublishTime n) in
      if dt \<noteq> None then dt
      else
        let dt = parse_iso_to_dt lib (content_get n pubDate) in
        if dt \<noteq> None then dt
        else parse_epoch_to_dt lib (timePublished n))"

text \<open>
  \<^verbatim>\<open>_within_lookback\<close>. \<open>now\<close> is what \<^verbatim>\<open>datetime.now(timezone.utc)\<close> returns in this
  call; the clock is read only when \<open>dt\<close> is not \<^verbatim>\<open>None\<close>.
\<close>

definition within_lookback :: "pylib \<Rightarrow> datetime \<Rightarrow> datetime option \<Rightarrow> int \<Rightarrow> error + bool" where
  "within_lookback lib now dt lookback_days =
     (case dt of
        None \<Rightarrow> Inr False
      | Some d \<Rightarrow>
          (case minus_days lib now lookback_days of
             None \<Rightarrow> Inl OverflowError
           | Some cutoff \<Rightarrow> Inr (dt_ge d cutoff)))"

text \<open>\<^verbatim>\<open>(d or {}).get("url")\<close> and \<^verbatim>\<open>(d or {}).get("displayName")\<close>.\<close>

definition url_of :: "url_object option \<Rightarrow> string option" where
  "url_of u = (case u of None \<Rightarrow> None | Some obj \<Rightarrow> url obj)"

definition displayName_of :: "provider_object option \<Rightarrow> string option" where
  "displayName_of p = (case p of None \<Rightarrow> None | Some obj \<Rightarrow> displayName obj)"

text \<open>\<^verbatim>\<open>_extract_link\<close>: each \<^verbatim>\<open>if x: return x\<close> tests truthiness.\<close>

definition extract_link :: "raw_news \<Rightarrow> string" where
  "extract_link n =
     (let lnk = raw_link n in
      if py_truthy lnk then str_value lnk
      else
        let canon = url_of (content_get n canonicalUrl) in
        if py_truthy canon then str_value canon
        else
          let click = url_of (content_get n clickThroughUrl) in
          if py_truthy click then str_value click
          else [])"

text \<open>\<^verbatim>\<open>_extract_publisher\<close>.\<close>

definition extract_publisher :: "raw_news \<Rightarrow> string option" where
  "extract_publisher n =
     (let pub = raw_publisher n in
      if py_truthy pub then pub
      else displayName_of (content_get n provider))"

text \<open>
  The title of the loop body:
  \<^verbatim>\<open>(n.get("title") or (n.get("content") or {}).get("title") or "").strip()\<close>.
\<close>

definition extract_title :: "raw_news \<Rightarrow> string" where
  "extract_title n =
     py_strip (if py_truthy (raw_title n) then str_value (raw_title n)
               else if py_truthy (content_get n content_title)
                    then str_value (content_get n content_title)
                    else [])"

text \<open>
  One iteration of the loop of \<^verbatim>\<open>fetch_recent_news\<close>: \<open>Inr None\<close> when the record is
  skipped by \<^verbatim>\<open>continue\<close>, \<open>Inr (Some item)\<close> when an item is appended, \<open>Inl e\<close> when
  the iteration raises.
\<close>

definition process_record :: "pylib \<Rightarrow> datetime \<Rightarrow> int \<Rightarrow> raw_news \<Rightarrow> error + NewsItem option" where
  "process_record lib now lookback_days n =
     (let ttl = extract_title n;
          lnk = extract_link n;
          pub = extract_publisher n;
          dt = extract_published_dt lib n;
          ts_iso = to_iso dt;
          related = (case relatedTickers n of None \<Rightarrow> [] | Some r \<Rightarrow> r)
      in if ttl = [] \<or> lnk = [] then Inr None
         else
           (case within_lookback lib now dt lookback_days of
              Inl e \<Rightarrow> Inl e
            | Inr recent \<Rightarrow>
                if \<not> recent then Inr None
                else Inr (Some \<lparr> title = ttl, link = lnk, publisher = pub,
                                  published_at = str_value ts_iso,
                                  related_tickers = related \<rparr>)))"

text \<open>
  The loop. \<open>clock i\<close> is what the clock shows while record number \<open>i\<close> is
  processed. An exception in any iteration ends the call.
\<close>

fun collect_items :: "pylib \<Rightarrow> (nat \<Rightarrow> datetime) \<Rightarrow> int \<Rightarrow> nat \<Rightarrow> raw_news list \<Rightarrow> error + NewsItem list" where
  "collect_items lib clock lookback_days i [] = Inr []"
| "collect_items lib clock lookback_days i (n # ns) =
     (case process_record lib (clock i) lookback_days n of
        Inl e \<Rightarrow> Inl e
      | Inr r \<Rightarrow>
          (case collect_items lib clock lookback_days (Suc i) ns of
             Inl e \<Rightarrow> Inl e
           | Inr items \<Rightarrow> Inr (case r of None \<Rightarrow> items | Some item \<Rightarrow> item # items)))"

text \<open>
  What one attempt meets outside the process: the provider's answer for a ticker
  (\<^verbatim>\<open>yf.Ticker(ticker).news or []\<close>, or an exception) and the clock.
\<close>

record world =
  news :: "string \<Rightarrow> error + raw_news list"
  clock :: "nat \<Rightarrow> datetime"

text \<open>
  The body of \<^verbatim>\<open>fetch_recent_news\<close>: collect, sort newest first, cut to
  \<^verbatim>\<open>items[: max(0, top_k)]\<close>.
\<close>

definition fetch_once :: "pylib \<Rightarrow> world \<Rightarrow> string \<Rightarrow> int \<Rightarrow> int \<Rightarrow> error + NewsItem list" where
  "fetch_once lib w ticker lookback_days top_k =
     (case news w ticker of
        Inl e \<Rightarrow> Inl e
      | Inr raw_items \<Rightarrow>
          (case collect_items lib (clock w) lookback_days 0 raw_items of
             Inl e \<Rightarrow> Inl e
           | Inr items \<Rightarrow> Inr (take (nat (max 0 top_k)) (sort_desc published_at items))))"

text \<open>
  \<^verbatim>\<open>fetch_recent_news\<close> with its retry decorator: any exception leads to another
  attempt, the third attempt's exception is raised again. Each attempt meets a world
  of its own.
\<close>

definition fetch_recent_news ::
  "pylib \<Rightarrow> world \<Rightarrow> world \<Rightarrow> world \<Rightarrow> string \<Rightarrow> int \<Rightarrow> int \<Rightarrow> error + NewsItem list" where
  "fetch_recent_news lib w1 w2 w3 ticker lookback_days top_k =
     (case fetch_once lib w1 ticker lookback_days top_k of
        Inr items \<Rightarrow> Inr items
      | Inl e1 \<Rightarrow>
          (case fetch_once lib w2 ticker lookback_days top_k of
             Inr items \<Rightarrow> Inr items
           | Inl e2 \<Rightarrow> fetch_once lib w3 ticker lookback_days top_k))"

subsection \<open>Sentiment analysis (sentiment\_chain.py)\<close>

text \<open>
  The prompt is the fixed system message and the human template filled with three
  arguments; it is represented by those arguments. \<^verbatim>\<open>build_prompt\<close> replaces a blank
  digest by a placeholder.
\<close>

record prompt =
  prompt_company :: string
  prompt_ticker :: string
  prompt_news :: string

definition build_prompt :: "string \<Rightarrow> string \<Rightarrow> string \<Rightarrow> prompt" where
  "build_prompt company code digest =
     \<lparr> prompt_company = company, prompt_ticker = code,
       prompt_news = (if py_strip digest \<noteq> [] then digest else ''(no recent articles found)'') \<rparr>"

text \<open>
  \<^verbatim>\<open>analyze_sentiment\<close>. The model invocation with structured output is the parameter
  \<open>llm\<close>: it returns a validated result or raises. The second component of the result
  lists the prompts the model was invoked with. The fields that the fallback leaves out
  take their defaults (empty lists); an exception of the constructor would propagate.
\<close>

definition analyze_sentiment ::
  "(prompt \<Rightarrow> error + SentimentResult) \<Rightarrow> string \<Rightarrow> string \<Rightarrow> string
     \<Rightarrow> (error + SentimentResult) \<times> prompt list" where
  "analyze_sentiment llm company code digest =
     (if py_strip digest = []
      then (new_SentimentResult company code ''(no recent articles found)'' Neutral
              [] [] [] [] ''Insufficient recent coverage; no clear directional signal.''
              (Numeric (Finite (1 / 5))), [])
      else let p = build_prompt company code digest in (llm p, [p]))"

subsection \<open>A sample run\<close>

text \<open>
  Concrete inputs for the examples that accompany the theorems. The sample library
  answers the few calls the sample records need, with the values Python gives: the
  epoch seconds 1757332799, 1757332800 and 1757840400 are 2025-09-08 11:59:59,
  2025-09-08 12:00:00 and 2025-09-14 09:00:00 UTC, and seven days before
  2025-09-15 12:00:00 is 2025-09-08 12:00:00.
\<close>

definition sample_now :: datetime where
  "sample_now = \<lparr>year = 2025, month = 9, day = 15, hour = 12, minute = 0, second = 0, microsecond = 0\<rparr>"

definition sample_cutoff :: datetime where
  "sample_cutoff = \<lparr>year = 2025, month = 9, day = 8, hour = 12, minute = 0, second = 0, microsecond = 0\<rparr>"

definition sample_lib :: pylib where
  "sample_lib =
     \<lparr> int_float = (\<lambda>v. case v of EpochInt i \<Rightarrow> Some i | _ \<Rightarrow> None),
       fromtimestamp = (\<lambda>secs.
         if secs = 1757332799
         then Some \<lparr>year = 2025, month = 9, day = 8, hour = 11, minute = 59, second = 59, microsecond = 0\<rparr>
         else if secs = 1757332800 then Some sample_cutoff
         else if secs = 1757840400
         then Some \<lparr>year = 2025, month = 9, day = 14, hour = 9, minute = 0, second = 0, microsecond = 0\<rparr>
         else None),
       fromisoformat = (\<lambda>s.
         if s = ''2025-09-15T14:40:39+00:00''
         then Some \<lparr>year = 2025, month = 9, day = 15, hour = 14, minute = 40, second = 39, microsecond = 0\<rparr>
         else None),
       minus_days = (\<lambda>d n. if d = sample_now \<and> n = 7 then Some sample_cutoff else None) \<rparr>"

text \<open>
  Four records: one a second older than the cutoff, one exactly at the cutoff, one in
  the nested shape (empty top-level link, unparseable epoch field, ISO date ending in
  \<^verbatim>\<open>Z\<close>), and one in the flat shape.
\<close>

definition record_old :: raw_news where
  "record_old =
     \<lparr> raw_title = Some ''Old'', raw_link = Some ''https://e.com/old'', raw_publisher = None,
       providerPublishTime = Some (EpochInt 1757332799), timePublished = None,
       relatedTickers = None, content = None \<rparr>"

definition record_edge :: raw_news where
  "record_edge =
     \<lparr> raw_title = Some ''Edge'', raw_link = Some ''https://e.com/edge'', raw_publisher = None,
       providerPublishTime = Some (EpochInt 1757332800), timePublished = None,
       relatedTickers = None, content = None \<rparr>"

definition record_nested :: raw_news where
  "record_nested =
     \<lparr> raw_title = None, raw_link = Some [], raw_publisher = None,
       providerPublishTime = Some (EpochStr ''n/a''), timePublished = None,
       relatedTickers = Some [''AAPL''],
       content = Some \<lparr> content_title = Some '' New '', pubDate = Some ''2025-09-15T14:40:39Z'',
                        canonicalUrl = Some \<lparr> url = Some ''https://e.com/new'' \<rparr>,
                        clickThroughUrl = Some \<lparr> url = Some ''https://e.com/click'' \<rparr>,
                        provider = Some \<lparr> displayName = Some ''Wire'' \<rparr> \<rparr> \<rparr>"

definition record_flat :: raw_news where
  "record_flat =
     \<lparr> raw_title = Some ''Mid'', raw_link = Some ''https://e.com/mid'', raw_publisher = Some ''Desk'',
       providerPublishTime = Some (EpochInt 1757840400), timePublished = None,
       relatedTickers = None, content = None \<rparr>"

definition sample_world :: world where
  "sample_world =
     \<lparr> news = (\<lambda>ticker. if ticker = ''AAPL''
                         then Inr [record_old, record_edge, record_nested, record_flat]
                         else Inr []),
       clock = (\<lambda>i. sample_now) \<rparr>"

text \<open>
  The rounding of the sample runs is round-to-nearest-even on the sums that occur in
  them. All of these are doubles themselves and are left as they are, except
  9007199254740993 (2 to the power 53, plus 1), which lies halfway between the
  neighbouring doubles 9007199254740992 and 9007199254740994 and rounds to the one with
  the even significand, 9007199254740992.
\<close>

definition sample_round :: rounding where
  "sample_round r = (if r = 9007199254740993 then Finite 9007199254740992 else Finite r)"

section \<open>Theorems\<close>

subsection \<open>Confidence clamping\<close>






subsection \<open>Ticker resolution\<close>

lemma CURATED_keys:
  "map fst CURATED =
     [''apple inc'', ''alphabet inc'', ''microsoft corporation'', ''amazon com inc'',
      ''tesla inc'', ''meta platforms inc'', ''nvidia corporation'', ''reliance industries'',
      ''tata consultancy services'', ''infosys'', ''hdfc bank'', ''icici bank'']"
  unfolding CURATED_def by code_simp

lemma CURATED_distinct: "distinct (map fst CURATED)"
  unfolding CURATED_keys by simp

lemma curated_lookup:
  "(k, v) \<in> set CURATED \<Longrightarrow> map_of CURATED k = Some v"
  using CURATED_distinct by (rule map_of_is_SomeI)











lemma resolve_ticker_curated:
  "map_of CURATED (norm_name name) = Some (sy, nm, exch) \<Longrightarrow>
   resolve_ticker rnd ys name region pe =
     (Inr (Some \<lparr> symbol = sy, shortname = nm, longname = Some nm, exchange = Some exch,
                 score = Finite 1, typeDisp = Some ''EQUITY'', exchDisp = Some exch \<rparr>), [])"
  by (simp add: resolve_ticker_def)



text \<open>
  Claim C5. When the normalized company name is a key of the curated table,
  \<open>resolve_ticker\<close> returns the mapped symbol with score 1 and type display
  \<^verbatim>\<open>EQUITY\<close>, whatever the search endpoint would answer, and the list of search
  calls is empty.
\<close>

theorem resolve_ticker_curated_hit:
  assumes "(norm_name name, sy, nm, exch) \<in> set CURATED"
  shows "resolve_ticker rnd ys name region pe =
     (Inr (Some \<lparr> symbol = sy, shortname = nm, longname = Some nm, exchange = Some exch,
                 score = Finite 1, typeDisp = Some ''EQUITY'', exchDisp = Some exch \<rparr>), [])"
  using assms by (intro resolve_ticker_curated curated_lookup)

theorem resolve_ticker_curated_hit_witness:
  "(norm_name ''APPLE, Inc.'', ''AAPL'', ''Apple Inc.'', ''NASDAQ'') \<in> set CURATED
   \<and> resolve_ticker sample_round (\<lambda>q n r. Inl RequestException) ''APPLE, Inc.'' ''US'' True =
       (Inr (Some \<lparr> symbol = ''AAPL'', shortname = ''Apple Inc.'', longname = Some ''Apple Inc.'',
                   exchange = Some ''NASDAQ'', score = Finite 1, typeDisp = Some ''EQUITY'',
                   exchDisp = Some ''NASDAQ'' \<rparr>), [])"
proof -
  have n: "norm_name ''APPLE, Inc.'' = ''apple inc''" by code_simp
  have k: "norm_name ''Apple Inc'' = ''apple inc''" by code_simp
  have h: "(norm_name ''APPLE, Inc.'', ''AAPL'', ''Apple Inc.'', ''NASDAQ'') \<in> set CURATED"
    unfolding n by (simp add: CURATED_def k)
  from h resolve_ticker_curated_hit [OF h] show ?thesis by blast
qed






subsection \<open>The no-news fallback\<close>

lemma py_strip_eq_Nil: "py_strip s = [] \<longleftrightarrow> (\<forall>c \<in> set s. isspace c)"
proof
  assume "py_strip s = []"
  then have all: "\<forall>c \<in> set (dropWhile isspace s). isspace c"
    by (simp add: py_strip_def)
  have "dropWhile isspace s = []"
  proof (rule ccontr)
    assume ne: "dropWhile isspace s \<noteq> []"
    then have "\<not> isspace (hd (dropWhile isspace s))" by (rule hd_dropWhile)
    moreover have "hd (dropWhile isspace s) \<in> set (dropWhile isspace s)" using ne by simp
    ultimately show False using all by blast
  qed
  then show "\<forall>c \<in> set s. isspace c" by simp
next
  assume "\<forall>c \<in> set s. isspace c"
  then have d: "dropWhile isspace s = []" by simp
  show "py_strip s = []" unfolding py_strip_def d by simp
qed

lemma clamp_confidence_fifth: "clamp_confidence (Numeric (Finite (1 / 5))) = Finite (1 / 5)"
  by (simp add: clamp_confidence_def py_min_def py_max_def)

text \<open>
  Claim C4. For every company name and stock code, when the digest is empty or holds
  only whitespace, \<open>analyze_sentiment\<close> returns the fixed result with sentiment
  \<open>Neutral\<close>, confidence 0.2 and the canned market-implications sentence, whatever the
  model would answer, and the model is invoked with no prompt.
\<close>

theorem analyze_sentiment_blank_digest:
  assumes "\<forall>c \<in> set digest. isspace c"
  shows "analyze_sentiment llm company code digest =
     (Inr \<lparr> company_name = company, stock_code = code,
            newsdesc = ''(no recent articles found)'', sentiment = Neutral,
            people_names = [], places_names = [], other_companies_referred = [],
            related_industries = [],
            market_implications = ''Insufficient recent coverage; no clear directional signal.'',
            confidence_score = Finite (1 / 5) \<rparr>, [])"
proof -
  have "py_strip digest = []" using assms by (simp add: py_strip_eq_Nil)
  then show ?thesis
    by (simp add: analyze_sentiment_def new_SentimentResult_def pydantic_float_def
          clamp_confidence_fifth)
qed

theorem analyze_sentiment_blank_digest_witness:
  "list_all isspace [CHR '' '', CHR 0x0A, CHR 0x09]
   \<and> analyze_sentiment (\<lambda>p. Inl LLMError) ''Apple Inc'' ''AAPL'' [CHR '' '', CHR 0x0A, CHR 0x09] =
     (Inr \<lparr> company_name = ''Apple Inc'', stock_code = ''AAPL'',
            newsdesc = ''(no recent articles found)'', sentiment = Neutral,
            people_names = [], places_names = [], other_companies_referred = [],
            related_industries = [],
            market_implications = ''Insufficient recent coverage; no clear directional signal.'',
            confidence_score = Finite (1 / 5) \<rparr>, [])"
proof -
  have h: "\<forall>c \<in> set [CHR '' '', CHR 0x0A, CHR 0x09]. isspace c"
    by (simp add: isspace_def)
  from h analyze_sentiment_blank_digest [OF h, of "\<lambda>p. Inl LLMError" "''Apple Inc''" "''AAPL''"]
  show ?thesis by (simp add: list_all_iff)
qed

subsection \<open>ISO timestamps and chronological order\<close>


















lemma digit_char_table:
  "digit_char 0 = CHR ''0''" "digit_char 1 = CHR ''1''" "digit_char 2 = CHR ''2''"
  "digit_char 3 = CHR ''3''" "digit_char 4 = CHR ''4''" "digit_char 5 = CHR ''5''"
  "digit_char 6 = CHR ''6''" "digit_char 7 = CHR ''7''" "digit_char 8 = CHR ''8''"
  "digit_char 9 = CHR ''9''" "digit_char (Suc 0) = CHR ''1''"
  unfolding digit_char_def by code_simp+

lemmas isoformat_eval = isoformat_def pad_zero_def dec_digits.simps digit_char_table

lemma sort_desc_sorted: "sorted_wrt (\<lambda>x y. f y \<le> f x) (sort_desc f xs)"
proof -
  have "sorted (map f (sort_key f (rev xs)))" by (rule sorted_sort_key)
  then have "sorted_wrt (\<lambda>x y. f x \<le> f y) (sort_key f (rev xs))"
    by (simp only: sorted_map)
  then show ?thesis
    by (simp only: sort_desc_def sorted_wrt_rev)
qed

lemma set_sort_desc: "set (sort_desc f xs) = set xs"
  by (simp add: sort_desc_def)




subsection \<open>News fetching\<close>

lemma process_record_cases:
  "process_record lib now lb n =
     (if extract_title n = [] \<or> extract_link n = [] then Inr None
      else
        (case extract_published_dt lib n of
           None \<Rightarrow> Inr None
         | Some d \<Rightarrow>
             (case minus_days lib now lb of
                None \<Rightarrow> Inl OverflowError
              | Some cutoff \<Rightarrow>
                  if dt_less d cutoff then Inr None
                  else Inr (Some \<lparr> title = extract_title n, link = extract_link n,
                                    publisher = extract_publisher n, published_at = isoformat d,
                                    related_tickers =
                                      (case relatedTickers n of None \<Rightarrow> [] | Some r \<Rightarrow> r) \<rparr>))))"
  by (simp add: process_record_def within_lookback_def Let_def to_iso_def str_value_def dt_ge_def
           split: option.splits)

lemma isoformat_not_Nil: "isoformat d \<noteq> []"
  by (simp add: isoformat_def)

lemma process_record_Some:
  assumes "process_record lib now lb n = Inr (Some item)"
  shows "\<exists>d. extract_published_dt lib n = Some d \<and> published_at item = isoformat d
            \<and> title item = extract_title n \<and> link item = extract_link n"
  using assms unfolding process_record_cases
  by (auto split: if_splits option.splits)

lemma collect_items_sound:
  "collect_items lib clk lb i ns = Inr items \<Longrightarrow> item \<in> set items \<Longrightarrow>
     \<exists>j < length ns. process_record lib (clk (i + j)) lb (ns ! j) = Inr (Some item)"
proof (induction ns arbitrary: i items)
  case Nil
  then show ?case by simp
next
  case (Cons n ns)
  from Cons.prems(1) obtain r rest where
      r: "process_record lib (clk i) lb n = Inr r"
      and rest: "collect_items lib clk lb (Suc i) ns = Inr rest"
      and items: "items = (case r of None \<Rightarrow> rest | Some x \<Rightarrow> x # rest)"
    by (auto split: sum.splits)
  show ?case
  proof (cases "item \<in> set rest")
    case True
    from Cons.IH [OF rest True] obtain j where
      "j < length ns" "process_record lib (clk (Suc i + j)) lb (ns ! j) = Inr (Some item)"
      by blast
    then have "Suc j < length (n # ns)
        \<and> process_record lib (clk (i + Suc j)) lb ((n # ns) ! Suc j) = Inr (Some item)"
      by simp
    then show ?thesis by blast
  next
    case False
    with Cons.prems(2) items have "r = Some item"
      by (cases r) auto
    with r have "0 < length (n # ns)
        \<and> process_record lib (clk (i + 0)) lb ((n # ns) ! 0) = Inr (Some item)"
      by simp
    then show ?thesis by blast
  qed
qed



lemma collect_items_total:
  "(\<And>j. j < length ns \<Longrightarrow> \<exists>r. process_record lib (clk (i + j)) lb (ns ! j) = Inr r) \<Longrightarrow>
   \<exists>items. collect_items lib clk lb i ns = Inr items"
proof (induction ns arbitrary: i)
  case Nil
  then show ?case by simp
next
  case (Cons n ns)
  from Cons.prems [of 0] obtain r where r: "process_record lib (clk i) lb n = Inr r" by auto
  have "\<exists>r. process_record lib (clk (Suc i + j)) lb (ns ! j) = Inr r" if "j < length ns" for j
    using Cons.prems [of "Suc j"] that by simp
  then obtain rest where "collect_items lib clk lb (Suc i) ns = Inr rest"
    using Cons.IH [of "Suc i"] by blast
  with r show ?case by simp
qed

lemma process_record_total:
  "minus_days lib now lb \<noteq> None \<Longrightarrow> \<exists>r. process_record lib now lb n = Inr r"
  unfolding process_record_cases by (auto split: option.splits)

lemma fetch_once_Inr:
  assumes "fetch_once lib w ticker lb top_k = Inr out"
  shows "\<exists>raw items. news w ticker = Inr raw
           \<and> collect_items lib (clock w) lb 0 raw = Inr items
           \<and> out = take (nat (max 0 top_k)) (sort_desc published_at items)"
  using assms by (auto simp: fetch_once_def split: sum.splits)

lemma fetch_recent_news_Inr:
  assumes "fetch_recent_news lib w1 w2 w3 ticker lb top_k = Inr out"
  shows "fetch_once lib w1 ticker lb top_k = Inr out
       \<or> fetch_once lib w2 ticker lb top_k = Inr out
       \<or> fetch_once lib w3 ticker lb top_k = Inr out"
  using assms by (auto simp: fetch_recent_news_def split: sum.splits)

lemma fetch_once_sorted_bounded:
  assumes "fetch_once lib w ticker lb top_k = Inr out"
  shows "sorted_wrt (\<lambda>a b. published_at b \<le> published_at a) out
       \<and> int (length out) \<le> max 0 top_k"
proof -
  from fetch_once_Inr [OF assms] obtain items where
    out: "out = take (nat (max 0 top_k)) (sort_desc published_at items)" by blast
  have "sorted_wrt (\<lambda>a b. published_at b \<le> published_at a) (sort_desc published_at items)"
    by (rule sort_desc_sorted)
  then have "sorted_wrt (\<lambda>a b. published_at b \<le> published_at a) out"
    unfolding out by (rule sorted_wrt_take)
  moreover have "int (length out) \<le> max 0 top_k"
    unfolding out by simp
  ultimately show ?thesis by simp
qed

subsection \<open>The sample run, evaluated\<close>

lemma sample_minus_days: "minus_days sample_lib sample_now 7 = Some sample_cutoff"
  by (simp add: sample_lib_def)

lemma sample_old:
  "extract_title record_old = ''Old''" "extract_link record_old = ''https://e.com/old''"
  "extract_published_dt sample_lib record_old =
     Some \<lparr>year = 2025, month = 9, day = 8, hour = 11, minute = 59, second = 59, microsecond = 0\<rparr>"
  by (simp_all add: record_old_def extract_title_def extract_link_def extract_published_dt_def
        parse_epoch_to_dt_def py_truthy_def str_value_def py_strip_def isspace_def sample_lib_def)

lemma sample_edge:
  "extract_title record_edge = ''Edge''" "extract_link record_edge = ''https://e.com/edge''"
  "extract_publisher record_edge = None"
  "extract_published_dt sample_lib record_edge = Some sample_cutoff"
  by (simp_all add: record_edge_def extract_title_def extract_link_def extract_published_dt_def
        extract_publisher_def content_get_def displayName_of_def
        parse_epoch_to_dt_def py_truthy_def str_value_def py_strip_def isspace_def sample_lib_def)

lemma sample_nested:
  "extract_title record_nested = ''New''" "extract_link record_nested = ''https://e.com/new''"
  "extract_publisher record_nested = Some ''Wire''"
  "extract_published_dt sample_lib record_nested =
     Some \<lparr>year = 2025, month = 9, day = 15, hour = 14, minute = 40, second = 39, microsecond = 0\<rparr>"
  by (simp_all add: record_nested_def extract_title_def extract_link_def extract_published_dt_def
        extract_publisher_def content_get_def displayName_of_def url_of_def
        parse_epoch_to_dt_def parse_iso_to_dt_def replace_Z_def Let_def
        py_truthy_def str_value_def py_strip_def isspace_def sample_lib_def)

lemma sample_flat:
  "extract_title record_flat = ''Mid''" "extract_link record_flat = ''https://e.com/mid''"
  "extract_publisher record_flat = Some ''Desk''"
  "extract_published_dt sample_lib record_flat =
     Some \<lparr>year = 2025, month = 9, day = 14, hour = 9, minute = 0, second = 0, microsecond = 0\<rparr>"
  by (simp_all add: record_flat_def extract_title_def extract_link_def extract_published_dt_def
        extract_publisher_def content_get_def displayName_of_def
        parse_epoch_to_dt_def py_truthy_def str_value_def py_strip_def isspace_def sample_lib_def)

lemma sample_process:
  "process_record sample_lib sample_now 7 record_old = Inr None"
  "process_record sample_lib sample_now 7 record_edge =
     Inr (Some \<lparr> title = ''Edge'', link = ''https://e.com/edge'', publisher = None,
                 published_at = ''2025-09-08T12:00:00+00:00'', related_tickers = [] \<rparr>)"
  "process_record sample_lib sample_now 7 record_nested =
     Inr (Some \<lparr> title = ''New'', link = ''https://e.com/new'', publisher = Some ''Wire'',
                 published_at = ''2025-09-15T14:40:39+00:00'', related_tickers = [''AAPL''] \<rparr>)"
  "process_record sample_lib sample_now 7 record_flat =
     Inr (Some \<lparr> title = ''Mid'', link = ''https://e.com/mid'', publisher = Some ''Desk'',
                 published_at = ''2025-09-14T09:00:00+00:00'', related_tickers = [] \<rparr>)"
  unfolding process_record_cases sample_old sample_edge sample_nested sample_flat sample_minus_days
  by (simp_all add: dt_less_def sample_cutoff_def isoformat_eval
        record_old_def record_edge_def record_nested_def record_flat_def)

lemma sample_collect:
  "collect_items sample_lib (clock sample_world) 7 0
     [record_old, record_edge, record_nested, record_flat] =
     Inr [\<lparr> title = ''Edge'', link = ''https://e.com/edge'', publisher = None,
             published_at = ''2025-09-08T12:00:00+00:00'', related_tickers = [] \<rparr>,
          \<lparr> title = ''New'', link = ''https://e.com/new'', publisher = Some ''Wire'',
             published_at = ''2025-09-15T14:40:39+00:00'', related_tickers = [''AAPL''] \<rparr>,
          \<lparr> title = ''Mid'', link = ''https://e.com/mid'', publisher = Some ''Desk'',
             published_at = ''2025-09-14T09:00:00+00:00'', related_tickers = [] \<rparr>]"
  by (simp add: sample_world_def sample_process)

lemma sample_sort:
  "sort_desc published_at
     [\<lparr> title = ''Edge'', link = ''https://e.com/edge'', publisher = None,
             published_at = ''2025-09-08T12:00:00+00:00'', related_tickers = [] \<rparr>,
          \<lparr> title = ''New'', link = ''https://e.com/new'', publisher = Some ''Wire'',
             published_at = ''2025-09-15T14:40:39+00:00'', related_tickers = [''AAPL''] \<rparr>,
          \<lparr> title = ''Mid'', link = ''https://e.com/mid'', publisher = Some ''Desk'',
             published_at = ''2025-09-14T09:00:00+00:00'', related_tickers = [] \<rparr>] =
     [\<lparr> title = ''New'', link = ''https://e.com/new'', publisher = Some ''Wire'',
             published_at = ''2025-09-15T14:40:39+00:00'', related_tickers = [''AAPL''] \<rparr>,
      \<lparr> title = ''Mid'', link = ''https://e.com/mid'', publisher = Some ''Desk'',
             published_at = ''2025-09-14T09:00:00+00:00'', related_tickers = [] \<rparr>,
      \<lparr> title = ''Edge'', link = ''https://e.com/edge'', publisher = None,
             published_at = ''2025-09-08T12:00:00+00:00'', related_tickers = [] \<rparr>]"
  by (simp add: sort_desc_def)

lemma sample_fetch:
  "fetch_recent_news sample_lib sample_world sample_world sample_world ''AAPL'' 7 2 =
     Inr [\<lparr> title = ''New'', link = ''https://e.com/new'', publisher = Some ''Wire'',
             published_at = ''2025-09-15T14:40:39+00:00'', related_tickers = [''AAPL''] \<rparr>,
          \<lparr> title = ''Mid'', link = ''https://e.com/mid'', publisher = Some ''Desk'',
             published_at = ''2025-09-14T09:00:00+00:00'', related_tickers = [] \<rparr>]"
proof -
  have n: "news sample_world ''AAPL'' = Inr [record_old, record_edge, record_nested, record_flat]"
    by (simp add: sample_world_def)
  have "fetch_once sample_lib sample_world ''AAPL'' 7 2 =
     Inr [\<lparr> title = ''New'', link = ''https://e.com/new'', publisher = Some ''Wire'',
             published_at = ''2025-09-15T14:40:39+00:00'', related_tickers = [''AAPL''] \<rparr>,
          \<lparr> title = ''Mid'', link = ''https://e.com/mid'', publisher = Some ''Desk'',
             published_at = ''2025-09-14T09:00:00+00:00'', related_tickers = [] \<rparr>]"
    unfolding fetch_once_def n by (simp add: sample_collect sample_sort del: collect_items.simps)
  then show ?thesis by (simp add: fetch_recent_news_def)
qed

subsection \<open>Order and size of the result\<close>

text \<open>
  Claim C7. Whatever the ticker, the lookback and \<open>top_k\<close>, a list returned by
  \<open>fetch_recent_news\<close> is sorted descending by \<open>published_at\<close> and has at most
  \<open>max 0 top_k\<close> elements, so it is empty when \<open>top_k\<close> is zero or negative. A list is
  returned whenever the provider answers the first attempt and the cutoff can be
  computed.
\<close>

theorem fetch_recent_news_sorted_bounded:
  "(\<forall>out. fetch_recent_news lib w1 w2 w3 ticker lb top_k = Inr out \<longrightarrow>
        sorted_wrt (\<lambda>a b. published_at b \<le> published_at a) out
      \<and> int (length out) \<le> max 0 top_k
      \<and> (top_k \<le> 0 \<longrightarrow> out = []))
   \<and> (\<forall>raw. news w1 ticker = Inr raw \<and> (\<forall>i. minus_days lib (clock w1 i) lb \<noteq> None) \<longrightarrow>
        (\<exists>out. fetch_recent_news lib w1 w2 w3 ticker lb top_k = Inr out))"
proof -
  have part1: "sorted_wrt (\<lambda>a b. published_at b \<le> published_at a) out
      \<and> int (length out) \<le> max 0 top_k \<and> (top_k \<le> 0 \<longrightarrow> out = [])"
    if ret: "fetch_recent_news lib w1 w2 w3 ticker lb top_k = Inr out" for out
  proof -
    from fetch_recent_news_Inr [OF ret] obtain w where
      "fetch_once lib w ticker lb top_k = Inr out" by blast
    then have sb: "sorted_wrt (\<lambda>a b. published_at b \<le> published_at a) out
       \<and> int (length out) \<le> max 0 top_k"
      by (rule fetch_once_sorted_bounded)
    then have "top_k \<le> 0 \<longrightarrow> out = []" by auto
    with sb show ?thesis by simp
  qed
  have part2: "\<exists>out. fetch_recent_news lib w1 w2 w3 ticker lb top_k = Inr out"
    if n: "news w1 ticker = Inr raw" and c: "\<forall>i. minus_days lib (clock w1 i) lb \<noteq> None" for raw
  proof -
    have "\<exists>r. process_record lib (clock w1 (0 + j)) lb (raw ! j) = Inr r" for j
      using c by (intro process_record_total) simp
    then obtain items where "collect_items lib (clock w1) lb 0 raw = Inr items"
      using collect_items_total [of raw lib "clock w1" 0 lb] by blast
    then have "fetch_once lib w1 ticker lb top_k
                 = Inr (take (nat (max 0 top_k)) (sort_desc published_at items))"
      using n by (simp add: fetch_once_def)
    then show ?thesis by (simp add: fetch_recent_news_def)
  qed
  from part1 part2 show ?thesis by blast
qed

theorem fetch_recent_news_sorted_bounded_witness:
  "fetch_recent_news sample_lib sample_world sample_world sample_world ''AAPL'' 7 2 =
     Inr [\<lparr> title = ''New'', link = ''https://e.com/new'', publisher = Some ''Wire'',
             published_at = ''2025-09-15T14:40:39+00:00'', related_tickers = [''AAPL''] \<rparr>,
          \<lparr> title = ''Mid'', link = ''https://e.com/mid'', publisher = Some ''Desk'',
             published_at = ''2025-09-14T09:00:00+00:00'', related_tickers = [] \<rparr>]
   \<and> sorted_wrt (\<lambda>a b. published_at b \<le> published_at a)
        [\<lparr> title = ''New'', link = ''https://e.com/new'', publisher = Some ''Wire'',
             published_at = ''2025-09-15T14:40:39+00:00'', related_tickers = [''AAPL''] \<rparr>,
         \<lparr> title = ''Mid'', link = ''https://e.com/mid'', publisher = Some ''Desk'',
             published_at = ''2025-09-14T09:00:00+00:00'', related_tickers = [] \<rparr>]
   \<and> fetch_recent_news sample_lib sample_world sample_world sample_world ''AAPL'' 7 0 = Inr []"
proof -
  note thm2 = fetch_recent_news_sorted_bounded
      [of sample_lib sample_world sample_world sample_world "''AAPL''" 7 2]
  note thm0 = fetch_recent_news_sorted_bounded
      [of sample_lib sample_world sample_world sample_world "''AAPL''" 7 0]
  have n: "news sample_world ''AAPL'' = Inr [record_old, record_edge, record_nested, record_flat]"
    by (simp add: sample_world_def)
  have c: "\<forall>i. minus_days sample_lib (clock sample_world i) 7 \<noteq> None"
    by (simp add: sample_world_def sample_minus_days)
  from thm0 n c obtain out where
    out: "fetch_recent_news sample_lib sample_world sample_world sample_world ''AAPL'' 7 0 = Inr out"
    by blast
  with thm0 have "out = []" by blast
  with out have zero:
    "fetch_recent_news sample_lib sample_world sample_world sample_world ''AAPL'' 7 0 = Inr []"
    by simp
  from thm2 sample_fetch have
    "sorted_wrt (\<lambda>a b. published_at b \<le> published_at a)
        [\<lparr> title = ''New'', link = ''https://e.com/new'', publisher = Some ''Wire'',
             published_at = ''2025-09-15T14:40:39+00:00'', related_tickers = [''AAPL''] \<rparr>,
         \<lparr> title = ''Mid'', link = ''https://e.com/mid'', publisher = Some ''Desk'',
             published_at = ''2025-09-14T09:00:00+00:00'', related_tickers = [] \<rparr>]"
    by blast
  with sample_fetch zero show ?thesis by (intro conjI)
qed

text \<open>
  Claim C9. Every item in a list returned by \<open>fetch_recent_news\<close> has a non-empty
  \<open>published_at\<close>, namely the ISO form of a datetime: a record whose timestamp could not
  be extracted is skipped by the loop before an item is built.
\<close>

theorem fetched_items_have_timestamp:
  "(\<forall>out. fetch_recent_news lib w1 w2 w3 ticker lb top_k = Inr out \<longrightarrow>
       (\<forall>item \<in> set out. published_at item \<noteq> [] \<and> (\<exists>d. published_at item = isoformat d)))
   \<and> (extract_published_dt lib n = None \<longrightarrow> process_record lib now lb n = Inr None)"
proof -
  have part1: "published_at item \<noteq> [] \<and> (\<exists>d. published_at item = isoformat d)"
    if ret: "fetch_recent_news lib w1 w2 w3 ticker lb top_k = Inr out" and mem: "item \<in> set out"
    for out item
  proof -
    from fetch_recent_news_Inr [OF ret] obtain w where
      "fetch_once lib w ticker lb top_k = Inr out" by blast
    from fetch_once_Inr [OF this] obtain raw items where
      col: "collect_items lib (clock w) lb 0 raw = Inr items"
      and out: "out = take (nat (max 0 top_k)) (sort_desc published_at items)" by blast
    from mem have "item \<in> set (sort_desc published_at items)"
      unfolding out by (rule in_set_takeD)
    then have "item \<in> set items" by (simp add: set_sort_desc)
    from collect_items_sound [OF col this] obtain j where
      "process_record lib (clock w (0 + j)) lb (raw ! j) = Inr (Some item)" by blast
    from process_record_Some [OF this] obtain d where "published_at item = isoformat d" by blast
    then show ?thesis using isoformat_not_Nil [of d] by auto
  qed
  have part2: "extract_published_dt lib n = None \<longrightarrow> process_record lib now lb n = Inr None"
    unfolding process_record_cases by simp
  from part1 part2 show ?thesis by blast
qed

theorem fetched_items_have_timestamp_witness:
  "fetch_recent_news sample_lib sample_world sample_world sample_world ''AAPL'' 7 2 =
     Inr [\<lparr> title = ''New'', link = ''https://e.com/new'', publisher = Some ''Wire'',
             published_at = ''2025-09-15T14:40:39+00:00'', related_tickers = [''AAPL''] \<rparr>,
          \<lparr> title = ''Mid'', link = ''https://e.com/mid'', publisher = Some ''Desk'',
             published_at = ''2025-09-14T09:00:00+00:00'', related_tickers = [] \<rparr>]
   \<and> published_at \<lparr> title = ''New'', link = ''https://e.com/new'', publisher = Some ''Wire'',
             published_at = ''2025-09-15T14:40:39+00:00'', related_tickers = [''AAPL''] \<rparr> \<noteq> []
   \<and> published_at \<lparr> title = ''Mid'', link = ''https://e.com/mid'', publisher = Some ''Desk'',
             published_at = ''2025-09-14T09:00:00+00:00'', related_tickers = [] \<rparr> \<noteq> []
   \<and> extract_published_dt sample_lib
         \<lparr> raw_title = Some ''Undated'', raw_link = Some ''https://e.com/undated'',
           raw_publisher = None, providerPublishTime = None, timePublished = None,
           relatedTickers = None, content = None \<rparr> = None
   \<and> process_record sample_lib sample_now 7
         \<lparr> raw_title = Some ''Undated'', raw_link = Some ''https://e.com/undated'',
           raw_publisher = None, providerPublishTime = None, timePublished = None,
           relatedTickers = None, content = None \<rparr> = Inr None"
proof -
  let ?undated = "\<lparr> raw_title = Some ''Undated'', raw_link = Some ''https://e.com/undated'',
           raw_publisher = None, providerPublishTime = None, timePublished = None,
           relatedTickers = None, content = None \<rparr>"
  note t = fetched_items_have_timestamp
      [of sample_lib sample_world sample_world sample_world "''AAPL''" 7 2 ?undated sample_now]
  have nodate: "extract_published_dt sample_lib ?undated = None"
    by (simp add: extract_published_dt_def parse_epoch_to_dt_def parse_iso_to_dt_def
          content_get_def py_truthy_def)
  from t nodate have dropped: "process_record sample_lib sample_now 7 ?undated = Inr None"
    by blast
  from t sample_fetch
  have "\<forall>item \<in> set [\<lparr> title = ''New'', link = ''https://e.com/new'', publisher = Some ''Wire'',
             published_at = ''2025-09-15T14:40:39+00:00'', related_tickers = [''AAPL''] \<rparr>,
          \<lparr> title = ''Mid'', link = ''https://e.com/mid'', publisher = Some ''Desk'',
             published_at = ''2025-09-14T09:00:00+00:00'', related_tickers = [] \<rparr>].
          published_at item \<noteq> [] \<and> (\<exists>d. published_at item = isoformat d)"
    by blast
  then have "published_at \<lparr> title = ''New'', link = ''https://e.com/new'', publisher = Some ''Wire'',
             published_at = ''2025-09-15T14:40:39+00:00'', related_tickers = [''AAPL''] \<rparr> \<noteq> []
   \<and> published_at \<lparr> title = ''Mid'', link = ''https://e.com/mid'', publisher = Some ''Desk'',
             published_at = ''2025-09-14T09:00:00+00:00'', related_tickers = [] \<rparr> \<noteq> []"
    by (simp only: list.set ball_simps insert_iff) blast
  with sample_fetch nodate dropped show ?thesis by (intro conjI) simp_all
qed

subsection \<open>Which records are dropped\<close>





subsection \<open>Extraction priority\<close>

text \<open>
  Claim C8 says that the first non-null source wins. The nested sample record has a
  top-level link that is not \<^verbatim>\<open>None\<close> but the empty string, and a provider epoch field
  that is not \<^verbatim>\<open>None\<close> but does not parse: the extracted link is the nested canonical
  URL and the extracted timestamp comes from the nested ISO date.
\<close>

theorem empty_link_and_bad_epoch_fall_through:
  "raw_link record_nested = Some []
   \<and> url_of (content_get record_nested canonicalUrl) = Some ''https://e.com/new''
   \<and> extract_link record_nested = ''https://e.com/new''
   \<and> providerPublishTime record_nested = Some (EpochStr ''n/a'')
   \<and> content_get record_nested pubDate = Some ''2025-09-15T14:40:39Z''
   \<and> extract_published_dt sample_lib record_nested =
       Some \<lparr>year = 2025, month = 9, day = 15, hour = 14, minute = 40, second = 39, microsecond = 0\<rparr>"
  using sample_nested(2,4)
  by (simp add: record_nested_def content_get_def url_of_def)

text \<open>
  Claim C8, amended. The published timestamp is the first of the provider epoch field,
  the nested ISO date and the secondary epoch field that parses to a datetime (a value
  that does not parse is passed over like a missing one). The link is the first of the
  top-level link, the nested canonical URL and the nested click-through URL that is a
  non-empty string (an empty string is passed over like a missing one), and the empty
  string when there is none. So a record with a non-empty top-level link yields that
  link whatever its nested URLs are.
\<close>

theorem extraction_priority:
  "(\<forall>d. parse_epoch_to_dt lib (providerPublishTime n) = Some d \<longrightarrow>
         extract_published_dt lib n = Some d)
   \<and> (\<forall>d. parse_epoch_to_dt lib (providerPublishTime n) = None
          \<and> parse_iso_to_dt lib (content_get n pubDate) = Some d \<longrightarrow>
         extract_published_dt lib n = Some d)
   \<and> (parse_epoch_to_dt lib (providerPublishTime n) = None
          \<and> parse_iso_to_dt lib (content_get n pubDate) = None \<longrightarrow>
         extract_published_dt lib n = parse_epoch_to_dt lib (timePublished n))
   \<and> (\<forall>l. raw_link n = Some l \<and> l \<noteq> [] \<longrightarrow> extract_link n = l)
   \<and> (\<forall>u. raw_link n \<in> {None, Some []}
          \<and> url_of (content_get n canonicalUrl) = Some u \<and> u \<noteq> [] \<longrightarrow> extract_link n = u)
   \<and> (\<forall>k. raw_link n \<in> {None, Some []}
          \<and> url_of (content_get n canonicalUrl) \<in> {None, Some []}
          \<and> url_of (content_get n clickThroughUrl) = Some k \<and> k \<noteq> [] \<longrightarrow> extract_link n = k)
   \<and> (raw_link n \<in> {None, Some []}
          \<and> url_of (content_get n canonicalUrl) \<in> {None, Some []}
          \<and> url_of (content_get n clickThroughUrl) \<in> {None, Some []} \<longrightarrow> extract_link n = [])"
proof -
  have t1: "\<forall>d. parse_epoch_to_dt lib (providerPublishTime n) = Some d \<longrightarrow>
         extract_published_dt lib n = Some d"
    by (simp add: extract_published_dt_def Let_def)
  have t2: "\<forall>d. parse_epoch_to_dt lib (providerPublishTime n) = None
          \<and> parse_iso_to_dt lib (content_get n pubDate) = Some d \<longrightarrow>
         extract_published_dt lib n = Some d"
    by (simp add: extract_published_dt_def Let_def)
  have t3: "parse_epoch_to_dt lib (providerPublishTime n) = None
          \<and> parse_iso_to_dt lib (content_get n pubDate) = None \<longrightarrow>
         extract_published_dt lib n = parse_epoch_to_dt lib (timePublished n)"
    by (simp add: extract_published_dt_def Let_def)
  have falsy: "v \<in> {None, Some []} \<longleftrightarrow> \<not> py_truthy v" for v
    by (cases v) (auto simp: py_truthy_def)
  have truthy: "v = Some s \<and> s \<noteq> [] \<Longrightarrow> py_truthy v \<and> str_value v = s" for v s
    by (simp add: py_truthy_def str_value_def)
  have l1: "\<forall>l. raw_link n = Some l \<and> l \<noteq> [] \<longrightarrow> extract_link n = l"
    using truthy [of "raw_link n"] by (simp add: extract_link_def Let_def)
  have l2: "\<forall>u. raw_link n \<in> {None, Some []}
          \<and> url_of (content_get n canonicalUrl) = Some u \<and> u \<noteq> [] \<longrightarrow> extract_link n = u"
    unfolding falsy using truthy [of "url_of (content_get n canonicalUrl)"]
    by (simp add: extract_link_def Let_def)
  have l3: "\<forall>k. raw_link n \<in> {None, Some []}
          \<and> url_of (content_get n canonicalUrl) \<in> {None, Some []}
          \<and> url_of (content_get n clickThroughUrl) = Some k \<and> k \<noteq> [] \<longrightarrow> extract_link n = k"
    unfolding falsy using truthy [of "url_of (content_get n clickThroughUrl)"]
    by (simp add: extract_link_def Let_def)
  have l4: "raw_link n \<in> {None, Some []}
          \<and> url_of (content_get n canonicalUrl) \<in> {None, Some []}
          \<and> url_of (content_get n clickThroughUrl) \<in> {None, Some []} \<longrightarrow> extract_link n = []"
    unfolding falsy by (simp add: extract_link_def Let_def)
  from t1 t2 t3 l1 l2 l3 l4 show ?thesis by (intro conjI)
qed

theorem extraction_priority_witness:
  "raw_link record_flat = Some ''https://e.com/mid''
   \<and> extract_link record_flat = ''https://e.com/mid''
   \<and> raw_link record_nested \<in> {None, Some []}
   \<and> url_of (content_get record_nested canonicalUrl) = Some ''https://e.com/new''
   \<and> extract_link record_nested = ''https://e.com/new''
   \<and> parse_epoch_to_dt sample_lib (providerPublishTime record_flat) =
       Some \<lparr>year = 2025, month = 9, day = 14, hour = 9, minute = 0, second = 0, microsecond = 0\<rparr>
   \<and> extract_published_dt sample_lib record_flat =
       Some \<lparr>year = 2025, month = 9, day = 14, hour = 9, minute = 0, second = 0, microsecond = 0\<rparr>"
proof -
  note tf = extraction_priority [of sample_lib record_flat]
  note tn = extraction_priority [of sample_lib record_nested]
  have f1: "raw_link record_flat = Some ''https://e.com/mid''"
    by (simp add: record_flat_def)
  have f2: "parse_epoch_to_dt sample_lib (providerPublishTime record_flat) =
       Some \<lparr>year = 2025, month = 9, day = 14, hour = 9, minute = 0, second = 0, microsecond = 0\<rparr>"
    by (simp add: record_flat_def parse_epoch_to_dt_def sample_lib_def)
  have n1: "raw_link record_nested \<in> {None, Some []}"
    by (simp add: record_nested_def)
  have n2: "url_of (content_get record_nested canonicalUrl) = Some ''https://e.com/new''"
    by (simp add: record_nested_def content_get_def url_of_def)
  from tf f1 have f3: "extract_link record_flat = ''https://e.com/mid''" by simp
  from tf f2 have f4: "extract_published_dt sample_lib record_flat =
       Some \<lparr>year = 2025, month = 9, day = 14, hour = 9, minute = 0, second = 0, microsecond = 0\<rparr>"
    by simp
  from tn n1 n2 have n3: "extract_link record_nested = ''https://e.com/new''" by blast
  from f1 f3 n1 n2 n3 f2 f4 show ?thesis by (intro conjI)
qed

end
